theory Spec2Isabelle
  imports Complex_Main "HOL-Library.Multiset" "HOL-Library.Sublist"
begin

section \<open>The reconciliation queries of reconcile\_data\_sql.py\<close>

text \<open>
  \<^verbatim>\<open>reconcile_and_export_data_for_date\<close> loads the two cleaned CSV files into data
  frames, registers them as the tables \<^verbatim>\<open>grab_transactions\<close> (alias \<^verbatim>\<open>gt\<close>)
  and \<^verbatim>\<open>partner_transactions\<close> (alias \<^verbatim>\<open>pt\<close>) and runs four SQL queries on
  them. The embedding keeps the tables as lists of rows and the queries as list
  functions; what the SQL engine adds to the Python text, its treatment of NULL, is
  written out.
\<close>

subsection \<open>SQL values and three-valued logic\<close>

text \<open>
  A cell of a table is NULL (\<open>None\<close>) or a value. A comparison with a NULL operand is
  neither true nor false but NULL, so the truth values are \<open>bool option\<close>; \<^verbatim>\<open>ON\<close> and
  \<^verbatim>\<open>WHERE\<close> keep a row only when the condition is true.
\<close>

definition sql_eq :: "'a option \<Rightarrow> 'a option \<Rightarrow> bool option" where
  "sql_eq a b = (case a of None \<Rightarrow> None
                 | Some x \<Rightarrow> (case b of None \<Rightarrow> None | Some y \<Rightarrow> Some (x = y)))"

definition sql_neq :: "'a option \<Rightarrow> 'a option \<Rightarrow> bool option" where
  "sql_neq a b = (case a of None \<Rightarrow> None
                  | Some x \<Rightarrow> (case b of None \<Rightarrow> None | Some y \<Rightarrow> Some (x \<noteq> y)))"

definition sql_and :: "bool option \<Rightarrow> bool option \<Rightarrow> bool option" where
  "sql_and a b = (if a = Some False \<or> b = Some False then Some False
                  else if a = Some True \<and> b = Some True then Some True
                  else None)"

definition sql_or :: "bool option \<Rightarrow> bool option \<Rightarrow> bool option" where
  "sql_or a b = (if a = Some True \<or> b = Some True then Some True
                 else if a = Some False \<and> b = Some False then Some False
                 else None)"

definition is_null :: "'a option \<Rightarrow> bool" where
  "is_null a = (a = None)"

definition holds :: "bool option \<Rightarrow> bool" where
  "holds c = (c = Some True)"

subsection \<open>The two tables\<close>

text \<open>
  The columns are those the cleaning step writes, in its order. Identifiers, codes,
  names and the timestamps (text in the CSV file) are strings; \<^verbatim>\<open>amount\<close> is the
  number \<^verbatim>\<open>pd.to_numeric\<close> produced. Equality of two floating-point amounts is
  equality of the numbers they denote, so amounts are rationals here. An empty CSV cell
  is NULL in every column.
\<close>

record grab_transactions =
  gt_transaction_id :: "string option"
  gt_grab_account_id :: "string option"
  gt_transaction_datetime :: "string option"
  gt_transaction_type :: "string option"
  gt_amount :: "rat option"
  gt_currency_code :: "string option"
  gt_status :: "string option"
  gt_partner_name :: "string option"
  gt_payment_method :: "string option"
  gt_created_at :: "string option"
  gt_updated_at :: "string option"

record partner_transactions =
  pt_partner_transaction_id :: "string option"
  pt_grab_transaction_id :: "string option"
  pt_grab_account_id :: "string option"
  pt_transaction_datetime :: "string option"
  pt_transaction_type :: "string option"
  pt_amount :: "rat option"
  pt_currency_code :: "string option"
  pt_status :: "string option"
  pt_payment_method :: "string option"
  pt_created_at :: "string option"
  pt_updated_at :: "string option"
  pt_partner_name :: "string option"

subsection \<open>Joins\<close>

text \<open>
  \<^verbatim>\<open>INNER JOIN\<close> pairs every row of the left table with every row of the right table
  for which the \<^verbatim>\<open>ON\<close> condition is true. \<^verbatim>\<open>LEFT JOIN\<close> does the same and keeps a
  left row without partner once, its right side all NULL (\<open>None\<close> for the right row).
  The lists are in the order of a nested loop over the left table; SQL itself promises
  no order.
\<close>

definition inner_join :: "('a \<Rightarrow> 'b \<Rightarrow> bool option) \<Rightarrow> 'a list \<Rightarrow> 'b list \<Rightarrow> ('a \<times> 'b) list" where
  "inner_join on ls rs =
     concat (map (\<lambda>l. map (Pair l) (filter (\<lambda>r. holds (on l r)) rs)) ls)"

definition left_join :: "('a \<Rightarrow> 'b \<Rightarrow> bool option) \<Rightarrow> 'a list \<Rightarrow> 'b list \<Rightarrow> ('a \<times> 'b option) list" where
  "left_join on ls rs =
     concat (map (\<lambda>l. case filter (\<lambda>r. holds (on l r)) rs of
                         [] \<Rightarrow> [(l, None)]
                       | m # ms \<Rightarrow> map (\<lambda>r. (l, Some r)) (m # ms)) ls)"

text \<open>A column of the right side of a left join: NULL where the row has no partner.\<close>

definition joined_col :: "('b \<Rightarrow> 'c option) \<Rightarrow> 'b option \<Rightarrow> 'c option" where
  "joined_col f r = (case r of None \<Rightarrow> None | Some x \<Rightarrow> f x)"

text \<open>
  The \<^verbatim>\<open>ON\<close> condition of \<^verbatim>\<open>match_query\<close>, \<^verbatim>\<open>grab_only_query\<close> and
  \<^verbatim>\<open>discrepancy_query\<close>:
  \<^verbatim>\<open>gt.transaction_id = pt.grab_transaction_id AND gt.grab_account_id = pt.grab_account_id\<close>,
  and the one of \<^verbatim>\<open>partner_only_query\<close>, which has the operands the other way round.
\<close>

definition gt_on_pt :: "grab_transactions \<Rightarrow> partner_transactions \<Rightarrow> bool option" where
  "gt_on_pt gt pt =
     sql_and (sql_eq (gt_transaction_id gt) (pt_grab_transaction_id pt))
             (sql_eq (gt_grab_account_id gt) (pt_grab_account_id pt))"

definition pt_on_gt :: "partner_transactions \<Rightarrow> grab_transactions \<Rightarrow> bool option" where
  "pt_on_gt pt gt =
     sql_and (sql_eq (pt_grab_transaction_id pt) (gt_transaction_id gt))
             (sql_eq (pt_grab_account_id pt) (gt_grab_account_id gt))"

subsection \<open>The four queries\<close>

text \<open>The rows of \<^verbatim>\<open>match_query\<close>: the sixteen columns of its \<^verbatim>\<open>SELECT\<close> list.\<close>

record reconciled_row =
  grab_transaction_id :: "string option"
  grab_account_id :: "string option"
  grab_amount :: "rat option"
  grab_currency_code :: "string option"
  grab_status :: "string option"
  grab_created_at :: "string option"
  grab_updated_at :: "string option"
  grab_transaction_datetime :: "string option"
  partner_grab_transaction_id :: "string option"
  partner_grab_account_id :: "string option"
  partner_amount :: "rat option"
  partner_currency_code :: "string option"
  partner_status :: "string option"
  partner_created_at :: "string option"
  partner_updated_at :: "string option"
  partner_transaction_datetime :: "string option"

definition match_select :: "grab_transactions \<times> partner_transactions \<Rightarrow> reconciled_row" where
  "match_select j = (case j of (gt, pt) \<Rightarrow>
     \<lparr> grab_transaction_id = gt_transaction_id gt,
       grab_account_id = gt_grab_account_id gt,
       grab_amount = gt_amount gt,
       grab_currency_code = gt_currency_code gt,
       grab_status = gt_status gt,
       grab_created_at = gt_created_at gt,
       grab_updated_at = gt_updated_at gt,
       grab_transaction_datetime = gt_transaction_datetime gt,
       partner_grab_transaction_id = pt_grab_transaction_id pt,
       partner_grab_account_id = pt_grab_account_id pt,
       partner_amount = pt_amount pt,
       partner_currency_code = pt_currency_code pt,
       partner_status = pt_status pt,
       partner_created_at = pt_created_at pt,
       partner_updated_at = pt_updated_at pt,
       partner_transaction_datetime = pt_transaction_datetime pt \<rparr>)"

text \<open>
  The joined pairs behind \<^verbatim>\<open>match_query\<close>, before its \<^verbatim>\<open>SELECT\<close> list projects
  them: the \<^verbatim>\<open>FROM ... INNER JOIN ... ON\<close> part, which \<^verbatim>\<open>discrepancy_query\<close> repeats.
\<close>

definition matched_pairs :: "grab_transactions list \<Rightarrow> partner_transactions list
    \<Rightarrow> (grab_transactions \<times> partner_transactions) list" where
  "matched_pairs G P = inner_join gt_on_pt G P"

definition match_query :: "grab_transactions list \<Rightarrow> partner_transactions list \<Rightarrow> reconciled_row list" where
  "match_query G P = map match_select (matched_pairs G P)"

text \<open>
  \<^verbatim>\<open>grab_only_query\<close>: \<^verbatim>\<open>SELECT gt.* ... LEFT JOIN ... WHERE pt.grab_transaction_id IS NULL\<close>,
  and \<^verbatim>\<open>partner_only_query\<close>: \<^verbatim>\<open>SELECT pt.* ... LEFT JOIN ... WHERE gt.transaction_id IS NULL\<close>.
\<close>

definition grab_only_query :: "grab_transactions list \<Rightarrow> partner_transactions list \<Rightarrow> grab_transactions list" where
  "grab_only_query G P =
     map fst (filter (\<lambda>j. is_null (joined_col pt_grab_transaction_id (snd j))) (left_join gt_on_pt G P))"

definition partner_only_query :: "grab_transactions list \<Rightarrow> partner_transactions list \<Rightarrow> partner_transactions list" where
  "partner_only_query G P =
     map fst (filter (\<lambda>j. is_null (joined_col gt_transaction_id (snd j))) (left_join pt_on_gt P G))"

text \<open>
  \<^verbatim>\<open>discrepancy_query\<close>: the same inner join, its \<^verbatim>\<open>WHERE\<close> clause
  \<^verbatim>\<open>gt.amount <> pt.amount OR gt.status <> pt.status OR gt.currency_code <> pt.currency_code\<close>
  and its own list of fourteen columns.
\<close>

definition discrepancy_where :: "grab_transactions \<times> partner_transactions \<Rightarrow> bool option" where
  "discrepancy_where j = (case j of (gt, pt) \<Rightarrow>
     sql_or (sql_or (sql_neq (gt_amount gt) (pt_amount pt))
                    (sql_neq (gt_status gt) (pt_status pt)))
            (sql_neq (gt_currency_code gt) (pt_currency_code pt)))"

record discrepant_row =
  d_transaction_id :: "string option"
  d_grab_account_id :: "string option"
  d_grab_amount :: "rat option"
  d_partner_amount :: "rat option"
  d_grab_currency_code :: "string option"
  d_partner_currency_code :: "string option"
  d_grab_status :: "string option"
  d_partner_status :: "string option"
  d_grab_created_at :: "string option"
  d_partner_created_at :: "string option"
  d_grab_updated_at :: "string option"
  d_partner_updated_at :: "string option"
  d_grab_transaction_datetime :: "string option"
  d_partner_transaction_datetime :: "string option"

definition discrepancy_select :: "grab_transactions \<times> partner_transactions \<Rightarrow> discrepant_row" where
  "discrepancy_select j = (case j of (gt, pt) \<Rightarrow>
     \<lparr> d_transaction_id = gt_transaction_id gt,
       d_grab_account_id = gt_grab_account_id gt,
       d_grab_amount = gt_amount gt,
       d_partner_amount = pt_amount pt,
       d_grab_currency_code = gt_currency_code gt,
       d_partner_currency_code = pt_currency_code pt,
       d_grab_status = gt_status gt,
       d_partner_status = pt_status pt,
       d_grab_created_at = gt_created_at gt,
       d_partner_created_at = pt_created_at pt,
       d_grab_updated_at = gt_updated_at gt,
       d_partner_updated_at = pt_updated_at pt,
       d_grab_transaction_datetime = gt_transaction_datetime gt,
       d_partner_transaction_datetime = pt_transaction_datetime pt \<rparr>)"

definition discrepant_pairs :: "grab_transactions list \<Rightarrow> partner_transactions list
    \<Rightarrow> (grab_transactions \<times> partner_transactions) list" where
  "discrepant_pairs G P = filter (\<lambda>j. holds (discrepancy_where j)) (inner_join gt_on_pt G P)"

definition discrepancy_query :: "grab_transactions list \<Rightarrow> partner_transactions list \<Rightarrow> discrepant_row list" where
  "discrepancy_query G P = map discrepancy_select (discrepant_pairs G P)"

text \<open>
  The dictionary \<^verbatim>\<open>reconciliation_results\<close>. A data frame that could not be loaded is
  \<open>None\<close> (\<^verbatim>\<open>load_csv_to_dataframe\<close> returns \<^verbatim>\<open>None\<close>); the function then logs
  an error and returns before any query runs. A file with a header and no rows loads as
  the empty table.
\<close>

record reconciliation_results =
  reconciled_transactions :: "reconciled_row list"
  grab_only_transactions :: "grab_transactions list"
  partner_only_transactions :: "partner_transactions list"
  discrepant_transactions :: "discrepant_row list"

definition reconcile :: "grab_transactions list option \<Rightarrow> partner_transactions list option
    \<Rightarrow> reconciliation_results option" where
  "reconcile cleaned_grab_df cleaned_partner_df =
     (case cleaned_grab_df of None \<Rightarrow> None
      | Some G \<Rightarrow> (case cleaned_partner_df of None \<Rightarrow> None
         | Some P \<Rightarrow> Some \<lparr> reconciled_transactions = match_query G P,
                            grab_only_transactions = grab_only_query G P,
                            partner_only_transactions = partner_only_query G P,
                            discrepant_transactions = discrepancy_query G P \<rparr>))"

text \<open>
  Two rows share a join key when the \<^verbatim>\<open>ON\<close> condition is true of them: both key
  columns are present on both sides and equal. A NULL key column shares nothing.
\<close>

definition same_join_key :: "grab_transactions \<Rightarrow> partner_transactions \<Rightarrow> bool" where
  "same_join_key gt pt =
     (gt_transaction_id gt \<noteq> None \<and> gt_grab_account_id gt \<noteq> None \<and>
      gt_transaction_id gt = pt_grab_transaction_id pt \<and>
      gt_grab_account_id gt = pt_grab_account_id pt)"

text \<open>The join key of a row of either table, as the pair of its two key columns.\<close>

definition gt_key :: "grab_transactions \<Rightarrow> string option \<times> string option" where
  "gt_key gt = (gt_transaction_id gt, gt_grab_account_id gt)"

definition pt_key :: "partner_transactions \<Rightarrow> string option \<times> string option" where
  "pt_key pt = (pt_grab_transaction_id pt, pt_grab_account_id pt)"

subsection \<open>Example rows\<close>

text \<open>The end-to-end scenario of the specification: one transaction, the amounts 100 and 105.\<close>

definition ex_gt_T1 :: grab_transactions where
  "ex_gt_T1 = \<lparr> gt_transaction_id = Some ''T1'', gt_grab_account_id = Some ''A1'',
     gt_transaction_datetime = Some ''2024-05-17 10:00:00+00:00'',
     gt_transaction_type = Some ''credit'', gt_amount = Some 100,
     gt_currency_code = Some ''PHP'', gt_status = Some ''success'',
     gt_partner_name = Some ''Acme'', gt_payment_method = Some ''cash'',
     gt_created_at = Some ''2024-05-17 09:30:00+00:00'',
     gt_updated_at = Some ''2024-05-17 10:30:00+00:00'' \<rparr>"

definition ex_pt_T1 :: partner_transactions where
  "ex_pt_T1 = \<lparr> pt_partner_transaction_id = Some ''P1'', pt_grab_transaction_id = Some ''T1'',
     pt_grab_account_id = Some ''A1'',
     pt_transaction_datetime = Some ''2024-05-17 10:00:05+00:00'',
     pt_transaction_type = Some ''credit'', pt_amount = Some 105,
     pt_currency_code = Some ''PHP'', pt_status = Some ''success'',
     pt_payment_method = Some ''cash'',
     pt_created_at = Some ''2024-05-17 09:45:00+00:00'',
     pt_updated_at = Some ''2024-05-17 10:15:00+00:00'',
     pt_partner_name = Some ''Acme'' \<rparr>"

text \<open>A source transaction without counterpart, and a counterpart whose link leads nowhere.\<close>

definition ex_gt_T2 :: grab_transactions where
  "ex_gt_T2 = ex_gt_T1 \<lparr> gt_transaction_id := Some ''T2'' \<rparr>"

definition ex_pt_T9 :: partner_transactions where
  "ex_pt_T9 = ex_pt_T1 \<lparr> pt_partner_transaction_id := Some ''P9'',
     pt_grab_transaction_id := Some ''T9'' \<rparr>"

section \<open>Data frames and the type conversion of the results\<close>

text \<open>
  Before a result of the four queries is exported, \<^verbatim>\<open>convert_dataframe_column_types\<close>
  runs over its columns. A data frame is modelled by its columns in order, each a name
  and a series; a series has a dtype and values that fit it. The dtypes are those the
  function can meet and make: \<^verbatim>\<open>object\<close> (a column of Python objects), a numeric
  dtype (a missing value is the float NaN) and \<^verbatim>\<open>datetime64[ns]\<close> with or without a
  time zone (a missing value is NaT). Column names are distinct in every result.
\<close>

datatype cell = PyNone | PyNaN | PyStr string | PyNum rat

type_synonym instant = int

datatype series =
    Object "cell list"
  | Numeric "rat option list"
  | Datetime "string option" "instant option list"

type_synonym dataframe = "(string \<times> series) list"

text \<open>
  The parts of the pandas library that the functions here call and that are taken as
  given: which strings \<^verbatim>\<open>pd.to_numeric\<close> reads as a number, how \<^verbatim>\<open>str\<close> prints a
  number and a timestamp, and how \<^verbatim>\<open>pd.to_datetime\<close> without a format reads a column
  of objects (it need not work cell by cell).
\<close>

record pandas =
  numeric_of_str :: "string \<Rightarrow> rat option"
  str_of_num :: "rat \<Rightarrow> string"
  str_of_ts :: "string option \<Rightarrow> instant \<Rightarrow> string"
  to_datetime_cells :: "cell list \<Rightarrow> instant option list"

text \<open>
  \<^verbatim>\<open>pd.to_numeric(s, errors='coerce')\<close>: a numeric series is returned as it is, a
  datetime series as its integer view (NaT is the least 64-bit integer), and an object
  series cell by cell, with NaN for \<^verbatim>\<open>None\<close> and for a string that is not a number.
\<close>

definition coerce_numeric :: "pandas \<Rightarrow> cell \<Rightarrow> rat option" where
  "coerce_numeric L c = (case c of PyNone \<Rightarrow> None | PyNaN \<Rightarrow> None
                          | PyStr s \<Rightarrow> numeric_of_str L s | PyNum x \<Rightarrow> Some x)"

definition to_numeric :: "pandas \<Rightarrow> series \<Rightarrow> series" where
  "to_numeric L s = (case s of
       Object cs \<Rightarrow> Numeric (map (coerce_numeric L) cs)
     | Numeric xs \<Rightarrow> Numeric xs
     | Datetime tz ts \<Rightarrow>
         Numeric (map (\<lambda>t. case t of None \<Rightarrow> Some (- (2 ^ 63)) | Some n \<Rightarrow> Some (of_int n)) ts))"

text \<open>
  \<^verbatim>\<open>s.astype(str)\<close>: every value becomes the string \<^verbatim>\<open>str\<close> gives for it, also a
  missing one: \<^verbatim>\<open>str(None)\<close> is \<^verbatim>\<open>'None'\<close>, \<^verbatim>\<open>str(float('nan'))\<close> is
  \<^verbatim>\<open>'nan'\<close>, \<^verbatim>\<open>str(pd.NaT)\<close> is \<^verbatim>\<open>'NaT'\<close>. The result is an object series of
  strings.
\<close>

definition str_cell :: "pandas \<Rightarrow> cell \<Rightarrow> string" where
  "str_cell L c = (case c of PyNone \<Rightarrow> ''None'' | PyNaN \<Rightarrow> ''nan''
                    | PyStr s \<Rightarrow> s | PyNum x \<Rightarrow> str_of_num L x)"

definition astype_str :: "pandas \<Rightarrow> series \<Rightarrow> series" where
  "astype_str L s = (case s of
       Object cs \<Rightarrow> Object (map (\<lambda>c. PyStr (str_cell L c)) cs)
     | Numeric xs \<Rightarrow>
         Object (map (\<lambda>x. PyStr (case x of None \<Rightarrow> ''nan'' | Some v \<Rightarrow> str_of_num L v)) xs)
     | Datetime tz ts \<Rightarrow>
         Object (map (\<lambda>t. PyStr (case t of None \<Rightarrow> ''NaT'' | Some n \<Rightarrow> str_of_ts L tz n)) ts))"

text \<open>
  \<^verbatim>\<open>pd.to_datetime(s, errors='coerce', utc=True)\<close>: the result is a series of dtype
  \<^verbatim>\<open>datetime64[ns, UTC]\<close>, whatever the input holds.
\<close>

definition to_datetime_utc :: "pandas \<Rightarrow> series \<Rightarrow> series" where
  "to_datetime_utc L s = (case s of
       Object cs \<Rightarrow> Datetime (Some ''UTC'') (to_datetime_cells L cs)
     | Numeric xs \<Rightarrow>
         Datetime (Some ''UTC'')
           (to_datetime_cells L (map (\<lambda>x. case x of None \<Rightarrow> PyNaN | Some v \<Rightarrow> PyNum v) xs))
     | Datetime tz ts \<Rightarrow> Datetime (Some ''UTC'') ts)"

definition is_datetime64_any_dtype :: "series \<Rightarrow> bool" where
  "is_datetime64_any_dtype s = (case s of Datetime tz ts \<Rightarrow> True | _ \<Rightarrow> False)"

definition dt_tz :: "series \<Rightarrow> string option" where
  "dt_tz s = (case s of Datetime tz ts \<Rightarrow> tz | _ \<Rightarrow> None)"

text \<open>\<^verbatim>\<open>s.dt.tz_convert(z)\<close> relabels the zone; the instants stay.\<close>

definition tz_convert :: "string \<Rightarrow> series \<Rightarrow> series" where
  "tz_convert z s = (case s of Datetime tz ts \<Rightarrow> Datetime (Some z) ts | _ \<Rightarrow> s)"

text \<open>
  The last branch of the chain in \<^verbatim>\<open>convert_dataframe_column_types\<close>, for the
  timestamp columns: a series that is no datetime series yet is parsed to UTC; one that
  is and has a time zone is converted to the zone it has; a naive one is left alone.
\<close>

definition convert_datetime :: "pandas \<Rightarrow> series \<Rightarrow> series" where
  "convert_datetime L s =
     (if \<not> is_datetime64_any_dtype s then to_datetime_utc L s
      else (case dt_tz s of Some z \<Rightarrow> tz_convert z s | None \<Rightarrow> s))"

text \<open>
  The \<^verbatim>\<open>if\<close>/\<^verbatim>\<open>elif\<close> chain of \<^verbatim>\<open>convert_dataframe_column_types\<close> for one column;
  \<^verbatim>\<open>'amount' in col\<close> is the substring test.
\<close>

definition convert_column :: "pandas \<Rightarrow> string \<Rightarrow> series \<Rightarrow> series" where
  "convert_column L col s =
     (if sublist ''amount'' col then to_numeric L s
      else if sublist ''status'' col then astype_str L s
      else if sublist ''currency_code'' col then astype_str L s
      else if sublist ''id'' col \<and> col \<noteq> ''grab_account_id'' then astype_str L s
      else if sublist ''account_id'' col then astype_str L s
      else if sublist ''name'' col \<or> sublist ''type'' col \<or> sublist ''method'' col
        then astype_str L s
      else if sublist ''datetime'' col \<or> sublist ''created_at'' col \<or> sublist ''updated_at'' col
        then convert_datetime L s
      else s)"

definition convert_dataframe_column_types :: "pandas \<Rightarrow> dataframe \<Rightarrow> dataframe" where
  "convert_dataframe_column_types L df = map (\<lambda>(col, s). (col, convert_column L col s)) df"

text \<open>The columns whose name sends them to one of the string casts.\<close>

definition text_typed :: "string \<Rightarrow> bool" where
  "text_typed col =
     (\<not> sublist ''amount'' col \<and>
      (sublist ''status'' col \<or> sublist ''currency_code'' col \<or> sublist ''id'' col \<or>
       sublist ''name'' col \<or> sublist ''type'' col \<or> sublist ''method'' col))"

text \<open>A series without missing value: no \<^verbatim>\<open>None\<close>, NaN or NaT in it.\<close>

definition no_nulls :: "series \<Rightarrow> bool" where
  "no_nulls s = (case s of
       Object cs \<Rightarrow> list_all (\<lambda>c. c \<noteq> PyNone \<and> c \<noteq> PyNaN) cs
     | Numeric xs \<Rightarrow> list_all (\<lambda>x. x \<noteq> None) xs
     | Datetime tz ts \<Rightarrow> list_all (\<lambda>t. t \<noteq> None) ts)"

subsection \<open>The frames the queries return\<close>

text \<open>
  The query results come back from the SQL engine as data frames. A text column is an
  object series with \<^verbatim>\<open>None\<close> for NULL. A numeric column is a float series with
  NaN for NULL; when it holds nothing but NULL (or no row at all) there is no number to
  infer the dtype from and it is an object series of \<^verbatim>\<open>None\<close>.
\<close>

definition text_column :: "string option list \<Rightarrow> series" where
  "text_column xs = Object (map (\<lambda>x. case x of None \<Rightarrow> PyNone | Some s \<Rightarrow> PyStr s) xs)"

definition real_column :: "rat option list \<Rightarrow> series" where
  "real_column xs = (if list_all (\<lambda>x. x = None) xs then Object (map (\<lambda>x. PyNone) xs)
                     else Numeric xs)"

definition reconciled_frame :: "reconciled_row list \<Rightarrow> dataframe" where
  "reconciled_frame rows =
     [(''grab_transaction_id'', text_column (map grab_transaction_id rows)),
      (''grab_account_id'', text_column (map grab_account_id rows)),
      (''grab_amount'', real_column (map grab_amount rows)),
      (''grab_currency_code'', text_column (map grab_currency_code rows)),
      (''grab_status'', text_column (map grab_status rows)),
      (''grab_created_at'', text_column (map grab_created_at rows)),
      (''grab_updated_at'', text_column (map grab_updated_at rows)),
      (''grab_transaction_datetime'', text_column (map grab_transaction_datetime rows)),
      (''partner_grab_transaction_id'', text_column (map partner_grab_transaction_id rows)),
      (''partner_grab_account_id'', text_column (map partner_grab_account_id rows)),
      (''partner_amount'', real_column (map partner_amount rows)),
      (''partner_currency_code'', text_column (map partner_currency_code rows)),
      (''partner_status'', text_column (map partner_status rows)),
      (''partner_created_at'', text_column (map partner_created_at rows)),
      (''partner_updated_at'', text_column (map partner_updated_at rows)),
      (''partner_transaction_datetime'', text_column (map partner_transaction_datetime rows))]"

definition grab_only_frame :: "grab_transactions list \<Rightarrow> dataframe" where
  "grab_only_frame rows =
     [(''transaction_id'', text_column (map gt_transaction_id rows)),
      (''grab_account_id'', text_column (map gt_grab_account_id rows)),
      (''transaction_datetime'', text_column (map gt_transaction_datetime rows)),
      (''transaction_type'', text_column (map gt_transaction_type rows)),
      (''amount'', real_column (map gt_amount rows)),
      (''currency_code'', text_column (map gt_currency_code rows)),
      (''status'', text_column (map gt_status rows)),
      (''partner_name'', text_column (map gt_partner_name rows)),
      (''payment_method'', text_column (map gt_payment_method rows)),
      (''created_at'', text_column (map gt_created_at rows)),
      (''updated_at'', text_column (map gt_updated_at rows))]"

definition partner_only_frame :: "partner_transactions list \<Rightarrow> dataframe" where
  "partner_only_frame rows =
     [(''partner_transaction_id'', text_column (map pt_partner_transaction_id rows)),
      (''grab_transaction_id'', text_column (map pt_grab_transaction_id rows)),
      (''grab_account_id'', text_column (map pt_grab_account_id rows)),
      (''transaction_datetime'', text_column (map pt_transaction_datetime rows)),
      (''transaction_type'', text_column (map pt_transaction_type rows)),
      (''amount'', real_column (map pt_amount rows)),
      (''currency_code'', text_column (map pt_currency_code rows)),
      (''status'', text_column (map pt_status rows)),
      (''payment_method'', text_column (map pt_payment_method rows)),
      (''created_at'', text_column (map pt_created_at rows)),
      (''updated_at'', text_column (map pt_updated_at rows)),
      (''partner_name'', text_column (map pt_partner_name rows))]"

definition discrepant_frame :: "discrepant_row list \<Rightarrow> dataframe" where
  "discrepant_frame rows =
     [(''transaction_id'', text_column (map d_transaction_id rows)),
      (''grab_account_id'', text_column (map d_grab_account_id rows)),
      (''grab_amount'', real_column (map d_grab_amount rows)),
      (''partner_amount'', real_column (map d_partner_amount rows)),
      (''grab_currency_code'', text_column (map d_grab_currency_code rows)),
      (''partner_currency_code'', text_column (map d_partner_currency_code rows)),
      (''grab_status'', text_column (map d_grab_status rows)),
      (''partner_status'', text_column (map d_partner_status rows)),
      (''grab_created_at'', text_column (map d_grab_created_at rows)),
      (''partner_created_at'', text_column (map d_partner_created_at rows)),
      (''grab_updated_at'', text_column (map d_grab_updated_at rows)),
      (''partner_updated_at'', text_column (map d_partner_updated_at rows)),
      (''grab_transaction_datetime'', text_column (map d_grab_transaction_datetime rows)),
      (''partner_transaction_datetime'', text_column (map d_partner_transaction_datetime rows))]"

text \<open>
  An instance of the library for the examples, which depend on it in one place only:
  it reads the string \<^verbatim>\<open>100.00\<close> as the number 100 and no other string as a
  number. It reads nothing as a date and prints every number and timestamp as the empty
  string.
\<close>

definition ex_pandas :: pandas where
  "ex_pandas = \<lparr> numeric_of_str = (\<lambda>s. if s = ''100.00'' then Some 100 else None),
     str_of_num = (\<lambda>x. []), str_of_ts = (\<lambda>tz t. []), to_datetime_cells = map (\<lambda>c. None) \<rparr>"

section \<open>The sinks\<close>

text \<open>
  The results go to two stores: tables of the PostgreSQL database and CSV files. Either
  store is a map from the name of a table or file to the rows it holds; a name that is
  not in the map is a table or file that does not exist. The functions return the store
  they leave behind. The database functions of reconcile\_data\_sql.py catch the
  database's error, roll back and go on, so an error leaves the store as it was.
\<close>

type_synonym 'r store = "string \<rightharpoonup> 'r list"

text \<open>
  \<^verbatim>\<open>create_reconciled_table_if_not_exists\<close> runs \<^verbatim>\<open>CREATE TABLE IF NOT EXISTS\<close>: a
  table that exists keeps its rows.
\<close>

definition create_reconciled_table_if_not_exists :: "'r store \<Rightarrow> string \<Rightarrow> 'r store" where
  "create_reconciled_table_if_not_exists db table_name =
     (case db table_name of None \<Rightarrow> db(table_name \<mapsto> []) | Some rows \<Rightarrow> db)"

text \<open>
  \<^verbatim>\<open>load_dataframe_to_postgres\<close> writes the frame to a buffer and runs
  \<^verbatim>\<open>cursor.copy_from\<close> on it, PostgreSQL's \<^verbatim>\<open>COPY ... FROM\<close>, which adds the rows
  to the table. Without the table the copy fails, and the function rolls back and
  returns \<^verbatim>\<open>False\<close>.
\<close>

definition load_dataframe_to_postgres :: "'r store \<Rightarrow> 'r list \<Rightarrow> string \<Rightarrow> 'r store \<times> bool" where
  "load_dataframe_to_postgres db df table_name =
     (case db table_name of None \<Rightarrow> (db, False)
      | Some rows \<Rightarrow> (db(table_name \<mapsto> rows @ df), True))"

text \<open>\<^verbatim>\<open>save_dataframe_to_csv\<close> writes the file anew (\<^verbatim>\<open>df.to_csv(file_path)\<close>).\<close>

definition save_dataframe_to_csv :: "'r store \<Rightarrow> 'r list \<Rightarrow> string \<Rightarrow> 'r store" where
  "save_dataframe_to_csv files df filename_base = files(filename_base \<mapsto> df)"

text \<open>
  The body of the export loop of \<^verbatim>\<open>reconcile_and_export_data_for_date\<close> for one
  result: create the table if it is not there, save the CSV file, and load the frame
  into the table unless the frame is empty.
\<close>

record 'r sinks =
  postgres :: "'r store"
  csv_files :: "'r store"

definition export_result :: "'r sinks \<Rightarrow> string \<Rightarrow> 'r list \<Rightarrow> 'r sinks" where
  "export_result S table_name df_converted =
     (let db = create_reconciled_table_if_not_exists (postgres S) table_name;
          files = save_dataframe_to_csv (csv_files S) df_converted table_name
      in \<lparr> postgres = (if df_converted \<noteq> []
                        then fst (load_dataframe_to_postgres db df_converted table_name)
                        else db),
           csv_files = files \<rparr>)"

text \<open>
  In clean\_data.py, \<^verbatim>\<open>load_dataframe_to_staging\<close> and the cleaned tables use
  \<^verbatim>\<open>df.to_sql(table_name, engine, if_exists='replace')\<close>: the table is dropped and
  made again from the frame.
\<close>

definition load_dataframe_to_staging :: "'r store \<Rightarrow> 'r list \<Rightarrow> string \<Rightarrow> 'r store" where
  "load_dataframe_to_staging db df table_name = db(table_name \<mapsto> df)"

section \<open>The cleaning step of clean\_data.py\<close>

subsection \<open>String methods\<close>

text \<open>
  Text is a HOL string, a list of 8-bit characters; the string methods are modelled on
  the ASCII range, where \<^verbatim>\<open>str.strip\<close> removes the characters 9 to 13, 28 to 31 and
  the space from both ends and \<^verbatim>\<open>str.upper\<close> and \<^verbatim>\<open>str.lower\<close> change the 26
  letters and nothing else.
\<close>

definition is_space :: "char \<Rightarrow> bool" where
  "is_space c = (let n = (of_char c :: nat) in (9 \<le> n \<and> n \<le> 13) \<or> (28 \<le> n \<and> n \<le> 32))"

definition is_upper :: "char \<Rightarrow> bool" where
  "is_upper c = (65 \<le> (of_char c :: nat) \<and> (of_char c :: nat) \<le> 90)"

definition is_lower :: "char \<Rightarrow> bool" where
  "is_lower c = (97 \<le> (of_char c :: nat) \<and> (of_char c :: nat) \<le> 122)"

definition upper_char :: "char \<Rightarrow> char" where
  "upper_char c = (if is_lower c then char_of ((of_char c :: nat) - 32) else c)"

definition lower_char :: "char \<Rightarrow> char" where
  "lower_char c = (if is_upper c then char_of ((of_char c :: nat) + 32) else c)"

definition strip :: "string \<Rightarrow> string" where
  "strip s = rev (dropWhile is_space (rev (dropWhile is_space s)))"

definition upper :: "string \<Rightarrow> string" where
  "upper s = map upper_char s"

definition lower :: "string \<Rightarrow> string" where
  "lower s = map lower_char s"

text \<open>\<^verbatim>\<open>str.replace(r'[^a-zA-Z]', '', regex=True)\<close> deletes what is no ASCII letter.\<close>

definition remove_non_letters :: "string \<Rightarrow> string" where
  "remove_non_letters s = filter (\<lambda>c. is_lower c \<or> is_upper c) s"

text \<open>
  The chain applied to a currency code,
  \<^verbatim>\<open>.str.strip().str.upper().str.replace(r'[^a-zA-Z]', '', regex=True)\<close>, and the
  chains applied to the other text columns.
\<close>

definition clean_currency_code :: "string \<Rightarrow> string" where
  "clean_currency_code s = remove_non_letters (upper (strip s))"

definition strip_lower :: "string \<Rightarrow> string" where
  "strip_lower s = lower (strip s)"

subsection \<open>Matching a string against a format\<close>

text \<open>
  \<^verbatim>\<open>pd.to_datetime(text_value, format=fmt, utc=True)\<close> turns the format into a regular
  expression, one group per directive, matches it at the start of the string ignoring
  case, and raises \<^verbatim>\<open>ValueError\<close> when there is no match or when the match leaves
  part of the string over. The model follows the regular expression: every directive
  gives its alternatives in the order the expression tries them, the alternatives of a
  sequence are tried depth first, and the first match found is the match. A
  \<^verbatim>\<open>ValueError\<close> is the result \<open>None\<close>.
\<close>

datatype directive = Lit char | Whitespace | Pct char

text \<open>
  A run of white space in the format stands for \<^verbatim>\<open>\s+\<close>; the flag says that the
  character before was white space already.
\<close>

fun tokens :: "bool \<Rightarrow> string \<Rightarrow> directive list" where
  "tokens ws [] = []"
| "tokens ws [c] = (if is_space c then (if ws then [] else [Whitespace]) else [Lit c])"
| "tokens ws (c # d # cs) =
     (if c = CHR ''%'' then Pct d # tokens False cs
      else if is_space c
        then (if ws then tokens True (d # cs) else Whitespace # tokens True (d # cs))
      else Lit c # tokens False (d # cs))"

definition digit :: "char \<Rightarrow> nat option" where
  "digit c = (if 48 \<le> (of_char c :: nat) \<and> (of_char c :: nat) \<le> 57
              then Some ((of_char c :: nat) - 48) else None)"

text \<open>Exactly \<open>k\<close> decimal digits at the start of the string: their value and the rest.\<close>

fun digits :: "nat \<Rightarrow> string \<Rightarrow> (nat \<times> string) option" where
  "digits 0 s = Some (0, s)"
| "digits (Suc k) [] = None"
| "digits (Suc k) (c # cs) =
     (case digit c of None \<Rightarrow> None
      | Some d \<Rightarrow> (case digits k cs of None \<Rightarrow> None
          | Some (n, r) \<Rightarrow> Some (d * 10 ^ k + n, r)))"

text \<open>
  A numeric directive such as \<^verbatim>\<open>%m\<close>, whose expression is \<^verbatim>\<open>1[0-2]|0[1-9]|[1-9]\<close>:
  two digits with a value in the directive's range are tried first, one digit after.
\<close>

definition num_alts :: "nat \<Rightarrow> nat \<Rightarrow> nat \<Rightarrow> string \<Rightarrow> (nat \<times> string) list" where
  "num_alts lo hi lo1 s =
     (case digits 2 s of None \<Rightarrow> []
      | Some (n, r) \<Rightarrow> if lo \<le> n \<and> n \<le> hi then [(n, r)] else [])
     @ (case digits 1 s of None \<Rightarrow> []
      | Some (n, r) \<Rightarrow> if lo1 \<le> n then [(n, r)] else [])"

text \<open>The last alternative of \<^verbatim>\<open>%d\<close>: a space and one digit from 1 to 9.\<close>

definition space_digit :: "string \<Rightarrow> (nat \<times> string) list" where
  "space_digit s = (case s of
       c # r \<Rightarrow> if c = CHR '' '' then
           (case digits 1 r of None \<Rightarrow> []
            | Some (n, r') \<Rightarrow> if 1 \<le> n then [(n, r')] else [])
         else []
     | [] \<Rightarrow> [])"

text \<open>\<^verbatim>\<open>\s+\<close>: the longest run of white space first, then the shorter ones.\<close>

definition whitespace_alts :: "string \<Rightarrow> string list" where
  "whitespace_alts s = map (\<lambda>k. drop k s) (rev [1 ..< Suc (length (takeWhile is_space s))])"

text \<open>
  What \<^verbatim>\<open>%z\<close> matched, \<^verbatim>\<open>[+-]\d\d:?[0-5]\d(:?[0-5]\d(\.\d{1,6})?)?|(?-i:Z)\<close>: the
  letter Z, or a sign, hours, minutes and maybe seconds, with the colons that were
  there.
\<close>

datatype tz_match = TzZ | TzOffset bool nat bool nat "(bool \<times> nat) option"

definition opt_colon :: "string \<Rightarrow> bool \<times> string" where
  "opt_colon s = (case s of c # r \<Rightarrow> if c = CHR '':'' then (True, r) else (False, s)
                  | [] \<Rightarrow> (False, s))"

definition sixty :: "string \<Rightarrow> (nat \<times> string) option" where
  "sixty s = (case digits 2 s of None \<Rightarrow> None
              | Some (n, r) \<Rightarrow> if n \<le> 59 then Some (n, r) else None)"

text \<open>\<^verbatim>\<open>(\.\d{1,6})?\<close>: a point and six digits down to one digit, or nothing.\<close>

definition fraction_alts :: "string \<Rightarrow> string list" where
  "fraction_alts s = (case s of
       c # r \<Rightarrow> if c = CHR ''.'' then
           concat (map (\<lambda>k. case digits k r of None \<Rightarrow> [] | Some (n, r') \<Rightarrow> [r'])
                    [6, 5, 4, 3, 2, 1])
         else []
     | [] \<Rightarrow> []) @ [s]"

definition seconds_alts :: "string \<Rightarrow> ((bool \<times> nat) option \<times> string) list" where
  "seconds_alts s =
     (case sixty (snd (opt_colon s)) of None \<Rightarrow> []
      | Some (ss, r) \<Rightarrow> map (\<lambda>r'. (Some (fst (opt_colon s), ss), r')) (fraction_alts r))
     @ [(None, s)]"

definition tz_alts :: "string \<Rightarrow> (tz_match \<times> string) list" where
  "tz_alts s =
     (case s of
        c # r \<Rightarrow> if c = CHR ''+'' \<or> c = CHR ''-'' then
            (case digits 2 r of None \<Rightarrow> []
             | Some (hh, r1) \<Rightarrow>
                 (case sixty (snd (opt_colon r1)) of None \<Rightarrow> []
                  | Some (mm, r2) \<Rightarrow>
                      map (\<lambda>(sec, r3). (TzOffset (c = CHR ''-'') hh (fst (opt_colon r1)) mm sec, r3))
                        (seconds_alts r2)))
          else []
      | [] \<Rightarrow> [])
     @ (case s of c # r \<Rightarrow> if c = CHR ''Z'' then [(TzZ, r)] else [] | [] \<Rightarrow> [])"

text \<open>The fields a match fills, with the defaults of a field no directive sets.\<close>

record fields =
  f_year :: nat
  f_month :: nat
  f_day :: nat
  f_hour :: nat
  f_hour12 :: "nat option"
  f_pm :: bool
  f_minute :: nat
  f_second :: nat
  f_tz :: "tz_match option"

definition default_fields :: fields where
  "default_fields = \<lparr> f_year = 1900, f_month = 1, f_day = 1, f_hour = 0, f_hour12 = None,
     f_pm = False, f_minute = 0, f_second = 0, f_tz = None \<rparr>"

definition match_directive :: "directive \<Rightarrow> fields \<Rightarrow> string \<Rightarrow> (fields \<times> string) list" where
  "match_directive t f s = (case t of
       Lit c \<Rightarrow> (case s of x # r \<Rightarrow> if lower_char x = lower_char c then [(f, r)] else []
                  | [] \<Rightarrow> [])
     | Whitespace \<Rightarrow> map (\<lambda>r. (f, r)) (whitespace_alts s)
     | Pct d \<Rightarrow>
         (if d = CHR ''Y'' then
            (case digits 4 s of None \<Rightarrow> [] | Some (n, r) \<Rightarrow> [(f \<lparr> f_year := n \<rparr>, r)])
          else if d = CHR ''m'' then
            map (\<lambda>(n, r). (f \<lparr> f_month := n \<rparr>, r)) (num_alts 1 12 1 s)
          else if d = CHR ''d'' then
            map (\<lambda>(n, r). (f \<lparr> f_day := n \<rparr>, r)) (num_alts 1 31 1 s @ space_digit s)
          else if d = CHR ''H'' then
            map (\<lambda>(n, r). (f \<lparr> f_hour := n \<rparr>, r)) (num_alts 0 23 0 s)
          else if d = CHR ''I'' then
            map (\<lambda>(n, r). (f \<lparr> f_hour12 := Some n \<rparr>, r)) (num_alts 1 12 1 s)
          else if d = CHR ''M'' then
            map (\<lambda>(n, r). (f \<lparr> f_minute := n \<rparr>, r)) (num_alts 0 59 0 s)
          else if d = CHR ''S'' then
            map (\<lambda>(n, r). (f \<lparr> f_second := n \<rparr>, r)) (num_alts 0 61 0 s)
          else if d = CHR ''p'' then
            (if lower (take 2 s) = ''am'' then [(f \<lparr> f_pm := False \<rparr>, drop 2 s)]
             else if lower (take 2 s) = ''pm'' then [(f \<lparr> f_pm := True \<rparr>, drop 2 s)]
             else [])
          else if d = CHR ''z'' then
            map (\<lambda>(z, r). (f \<lparr> f_tz := Some z \<rparr>, r)) (tz_alts s)
          else if d = CHR ''%'' then
            (case s of x # r \<Rightarrow> if x = CHR ''%'' then [(f, r)] else [] | [] \<Rightarrow> [])
          else []))"

fun match_tokens :: "directive list \<Rightarrow> fields \<Rightarrow> string \<Rightarrow> (fields \<times> string) list" where
  "match_tokens [] f s = [(f, s)]"
| "match_tokens (t # ts) f s =
     concat (map (\<lambda>m. match_tokens ts (fst m) (snd m)) (match_directive t f s))"

subsection \<open>From the fields to the UTC instant\<close>

text \<open>
  The offset \<^verbatim>\<open>parse_timezone_directive\<close> makes of the \<^verbatim>\<open>%z\<close> match, in minutes:
  the seconds are read and then dropped. It raises \<^verbatim>\<open>ValueError\<close> when only one
  of the two colons is there and when the offset is a day or more.
\<close>

definition tz_minutes :: "tz_match \<Rightarrow> int option" where
  "tz_minutes z = (case z of
       TzZ \<Rightarrow> Some 0
     | TzOffset neg hh colon mm sec \<Rightarrow>
         (if (case sec of None \<Rightarrow> False | Some (colon', ss) \<Rightarrow> colon' \<noteq> colon) then None
          else if 1440 \<le> hh * 60 + mm then None
          else Some ((if neg then - 1 else 1) * int (hh * 60 + mm))))"

definition leap_year :: "nat \<Rightarrow> bool" where
  "leap_year y = (y mod 4 = 0 \<and> (y mod 100 \<noteq> 0 \<or> y mod 400 = 0))"

definition days_in_month :: "nat \<Rightarrow> nat \<Rightarrow> nat" where
  "days_in_month y m =
     (if m = 2 then (if leap_year y then 29 else 28)
      else if m = 4 \<or> m = 6 \<or> m = 9 \<or> m = 11 then 30 else 31)"

text \<open>The days from 1970-01-01 to a date of the proleptic Gregorian calendar.\<close>

definition days_from_civil :: "int \<Rightarrow> int \<Rightarrow> int \<Rightarrow> int" where
  "days_from_civil y m d =
     (let y' = (if m \<le> 2 then y - 1 else y);
          era = y' div 400;
          yoe = y' - era * 400;
          doy = (153 * (if 2 < m then m - 3 else m + 9) + 2) div 5 + d - 1;
          doe = yoe * 365 + yoe div 4 - yoe div 100 + doy
      in era * 146097 + doe - 719468)"

definition hour24 :: "fields \<Rightarrow> nat" where
  "hour24 f = (case f_hour12 f of None \<Rightarrow> f_hour f
     | Some h \<Rightarrow> if f_pm f then (if h \<noteq> 12 then h + 12 else h)
                 else (if h = 12 then 0 else h))"

text \<open>
  An instant is a count of nanoseconds since 1970-01-01T00:00:00 UTC. A date that
  does not exist, and a time outside the 64 bits of a timestamp, raise
  \<^verbatim>\<open>ValueError\<close>. With \<^verbatim>\<open>utc=True\<close> a time with an offset is converted to UTC and
  a time without is taken as UTC.
\<close>

definition utc_instant :: "int \<Rightarrow> int \<Rightarrow> int \<Rightarrow> int \<Rightarrow> int \<Rightarrow> int \<Rightarrow> instant" where
  "utc_instant y m d h mi sec =
     (days_from_civil y m d * 86400 + h * 3600 + mi * 60 + sec) * 1000000000"

definition local_ns :: "fields \<Rightarrow> int" where
  "local_ns f = utc_instant (int (f_year f)) (int (f_month f)) (int (f_day f))
                  (int (hour24 f)) (int (f_minute f)) (int (f_second f))"

definition to_utc :: "fields \<Rightarrow> instant option" where
  "to_utc f =
     (if f_year f < 1 \<or> days_in_month (f_year f) (f_month f) < f_day f then None
      else if local_ns f \<le> - (2 ^ 63) \<or> 2 ^ 63 \<le> local_ns f then None
      else (case f_tz f of None \<Rightarrow> Some (local_ns f)
            | Some z \<Rightarrow> (case tz_minutes z of None \<Rightarrow> None
                | Some off \<Rightarrow> Some (local_ns f - off * 60 * 1000000000))))"

definition strptime_utc :: "string \<Rightarrow> string \<Rightarrow> instant option" where
  "strptime_utc fmt s =
     (case match_tokens (tokens False fmt) default_fields s of
        [] \<Rightarrow> None
      | m # ms \<Rightarrow> if snd m \<noteq> [] then None else to_utc (fst m))"

subsection \<open>\<^verbatim>\<open>parse_datetime\<close>\<close>

definition formats :: "string list" where
  "formats = [''%Y-%m-%dT%H:%M:%S%z'',
              ''%m/%d/%Y %I:%M:%S %p'',
              ''%Y-%m-%d %H:%M:%S'',
              ''%Y%m%dT%H%M%SZ'',
              ''%Y-%m-%d'']"

text \<open>
  The loop \<^verbatim>\<open>for fmt in formats: try: return pd.to_datetime(...) except ValueError: continue\<close>
  and the \<^verbatim>\<open>return None\<close> after it.
\<close>

fun try_formats :: "string list \<Rightarrow> string \<Rightarrow> instant option" where
  "try_formats [] s = None"
| "try_formats (fmt # fmts) s =
     (case strptime_utc fmt s of Some t \<Rightarrow> Some t | None \<Rightarrow> try_formats fmts s)"

text \<open>
  \<^verbatim>\<open>parse_datetime\<close> on a cell of a column. A missing value returns \<^verbatim>\<open>None\<close> at
  once. A number is matched as the string \<^verbatim>\<open>str\<close> prints for it, which has none of
  the characters \<^verbatim>\<open>-\<close>, \<^verbatim>\<open>/\<close> and \<^verbatim>\<open>T\<close> that every format asks for after its
  first digits, so every attempt fails.
\<close>

definition parse_datetime :: "cell \<Rightarrow> instant option" where
  "parse_datetime text_value = (case text_value of
       PyNone \<Rightarrow> None | PyNaN \<Rightarrow> None
     | PyStr s \<Rightarrow> try_formats formats s
     | PyNum x \<Rightarrow> None)"

subsection \<open>The columns of a raw frame\<close>








definition str_map :: "(string \<Rightarrow> string) \<Rightarrow> cell \<Rightarrow> cell" where
  "str_map f c = (case c of PyStr s \<Rightarrow> PyStr (f s) | PyNum x \<Rightarrow> PyNaN
                  | PyNone \<Rightarrow> PyNone | PyNaN \<Rightarrow> PyNaN)"






subsection \<open>\<^verbatim>\<open>clean_data_for_date\<close> on a transactions table\<close>

text \<open>
  The two transaction tables go through the same steps on the same nine columns; the
  identifier columns (\<^verbatim>\<open>transaction_id\<close> and \<^verbatim>\<open>grab_account_id\<close> of the source,
  three of them for the counterpart) are selected and written back untouched, and are
  one field \<open>ids\<close> here. A raw record holds in every column a string, a number or
  nothing.
\<close>

record 'i raw_transaction =
  raw_ids :: 'i
  raw_transaction_datetime :: cell
  raw_transaction_type :: cell
  raw_amount :: cell
  raw_currency_code :: cell
  raw_status :: cell
  raw_partner_name :: cell
  raw_payment_method :: cell
  raw_created_at :: cell
  raw_updated_at :: cell

record 'i cleaned_transaction =
  ids :: 'i
  transaction_datetime :: "instant option"
  transaction_type :: cell
  amount :: "rat option"
  currency_code :: cell
  status :: cell
  partner_name :: cell
  payment_method :: cell
  created_at :: "instant option"
  updated_at :: "instant option"



text \<open>
  What the steps do to one row when none of them raises: the canonical record of a raw
  record.
\<close>

definition clean_row :: "pandas \<Rightarrow> 'i raw_transaction \<Rightarrow> 'i cleaned_transaction" where
  "clean_row L r =
     \<lparr> ids = raw_ids r,
       transaction_datetime = parse_datetime (raw_transaction_datetime r),
       transaction_type = str_map (\<lambda>s. lower (strip s)) (raw_transaction_type r),
       amount = coerce_numeric L (raw_amount r),
       currency_code = str_map clean_currency_code (raw_currency_code r),
       status = str_map (\<lambda>s. lower (strip s)) (raw_status r),
       partner_name = str_map strip (raw_partner_name r),
       payment_method = str_map (\<lambda>s. lower (strip s)) (raw_payment_method r),
       created_at = parse_datetime (raw_created_at r),
       updated_at = parse_datetime (raw_updated_at r) \<rparr>"


text \<open>Raw records for the examples: a well-formed one, and variations of it.\<close>

definition ex_raw :: "string raw_transaction" where
  "ex_raw = \<lparr> raw_ids = ''T1'',
     raw_transaction_datetime = PyStr ''2024-05-17T10:00:00Z'',
     raw_transaction_type = PyStr '' Credit '',
     raw_amount = PyStr ''100.00'',
     raw_currency_code = PyStr '' php '',
     raw_status = PyStr ''Success'',
     raw_partner_name = PyStr '' Acme '',
     raw_payment_method = PyStr ''E-Wallet'',
     raw_created_at = PyStr ''2024-05-17 10:00:00'',
     raw_updated_at = PyNone \<rparr>"

section \<open>Properties of the reconciliation queries\<close>

lemma holds_gt_on_pt: "holds (gt_on_pt gt pt) = same_join_key gt pt"
  by (auto simp: holds_def gt_on_pt_def same_join_key_def sql_and_def sql_eq_def
      split: option.splits)

lemma holds_pt_on_gt: "holds (pt_on_gt pt gt) = same_join_key gt pt"
  by (auto simp: holds_def pt_on_gt_def same_join_key_def sql_and_def sql_eq_def
      split: option.splits)

subsection \<open>Facts about the joins\<close>

lemma set_inner_join:
  "set (inner_join on ls rs) = {(l, r). l \<in> set ls \<and> r \<in> set rs \<and> holds (on l r)}"
  by (auto simp: inner_join_def)

text \<open>
  A left join filtered on a NULL right column keeps exactly the left rows without
  partner, once each and in their order, provided the column is never NULL in a row
  that joins.
\<close>

lemma left_join_unmatched:
  assumes present: "\<And>l r. holds (on l r) \<Longrightarrow> f r \<noteq> None"
  shows "map fst (filter (\<lambda>j. is_null (joined_col f (snd j))) (left_join on ls rs))
       = filter (\<lambda>l. \<not> (\<exists>r\<in>set rs. holds (on l r))) ls"
proof (induction ls)
  case Nil
  show ?case by (simp add: left_join_def)
next
  case (Cons l ls)
  have step: "left_join on (l # ls) rs =
      (case filter (\<lambda>r. holds (on l r)) rs of [] \<Rightarrow> [(l, None)]
       | m # ms \<Rightarrow> map (\<lambda>r. (l, Some r)) (m # ms)) @ left_join on ls rs"
    by (simp add: left_join_def)
  show ?case
  proof (cases "filter (\<lambda>r. holds (on l r)) rs")
    case Nil
    then have "\<not> (\<exists>r\<in>set rs. holds (on l r))"
      by (simp add: filter_empty_conv)
    with Nil Cons.IH show ?thesis
      by (simp add: step is_null_def joined_col_def)
  next
    case (Cons m ms)
    then have ex: "\<exists>r\<in>set rs. holds (on l r)"
      by (metis filter_empty_conv list.distinct(1))
    have all: "\<forall>r\<in>set (m # ms). f r \<noteq> None"
    proof
      fix r assume "r \<in> set (m # ms)"
      then have "r \<in> set (filter (\<lambda>r. holds (on l r)) rs)" by (simp only: Cons)
      then have "holds (on l r)" by simp
      then show "f r \<noteq> None" by (rule present)
    qed
    then have none: "filter (\<lambda>j. is_null (joined_col f (snd j))) (map (\<lambda>r. (l, Some r)) (m # ms)) = []"
      by (auto simp: filter_empty_conv is_null_def joined_col_def)
    have "left_join on (l # ls) rs = map (\<lambda>r. (l, Some r)) (m # ms) @ left_join on ls rs"
      by (simp only: step Cons list.case)
    then have "map fst (filter (\<lambda>j. is_null (joined_col f (snd j))) (left_join on (l # ls) rs))
        = map fst (filter (\<lambda>j. is_null (joined_col f (snd j))) (left_join on ls rs))"
      by (simp only: filter_append none append_Nil)
    also have "\<dots> = filter (\<lambda>l. \<not> (\<exists>r\<in>set rs. holds (on l r))) ls"
      by (rule Cons.IH)
    also have "\<dots> = filter (\<lambda>l. \<not> (\<exists>r\<in>set rs. holds (on l r))) (l # ls)"
      using ex by simp
    finally show ?thesis .
  qed
qed

lemma inner_join_key:
  "filter (\<lambda>j. kl (fst j) = k \<and> kr (snd j) = k) (inner_join on ls rs)
     = filter (\<lambda>j. holds (on (fst j) (snd j)))
         (List.product (filter (\<lambda>l. kl l = k) ls) (filter (\<lambda>r. kr r = k) rs))"
  by (induction ls)
     (auto simp: inner_join_def filter_map comp_def intro!: arg_cong[where f = "map _"] filter_cong)

lemma grab_only_query_filter:
  "grab_only_query G P = filter (\<lambda>gt. \<not> (\<exists>pt\<in>set P. same_join_key gt pt)) G"
proof -
  have present: "\<And>gt pt. holds (gt_on_pt gt pt) \<Longrightarrow> pt_grab_transaction_id pt \<noteq> None"
    by (auto simp: holds_gt_on_pt same_join_key_def)
  have "grab_only_query G P = filter (\<lambda>gt. \<not> (\<exists>pt\<in>set P. holds (gt_on_pt gt pt))) G"
    unfolding grab_only_query_def by (rule left_join_unmatched) (rule present)
  then show ?thesis
    by (simp add: holds_gt_on_pt)
qed

lemma partner_only_query_filter:
  "partner_only_query G P = filter (\<lambda>pt. \<not> (\<exists>gt\<in>set G. same_join_key gt pt)) P"
proof -
  have present: "\<And>pt gt. holds (pt_on_gt pt gt) \<Longrightarrow> gt_transaction_id gt \<noteq> None"
    by (auto simp: holds_pt_on_gt same_join_key_def)
  have "partner_only_query G P = filter (\<lambda>pt. \<not> (\<exists>gt\<in>set G. holds (pt_on_gt pt gt))) P"
    unfolding partner_only_query_def by (rule left_join_unmatched) (rule present)
  then show ?thesis
    by (simp add: holds_pt_on_gt)
qed

lemma set_matched_pairs:
  "set (matched_pairs G P) = {(gt, pt). gt \<in> set G \<and> pt \<in> set P \<and> same_join_key gt pt}"
  by (simp add: matched_pairs_def set_inner_join holds_gt_on_pt)



text \<open>For rows whose key columns are present, sharing the key is equality of the pair.\<close>

lemma same_join_key_present:
  "gt_transaction_id gt = Some t \<Longrightarrow> gt_grab_account_id gt = Some a \<Longrightarrow>
   same_join_key gt pt =
     ((pt_grab_transaction_id pt, pt_grab_account_id pt) = (Some t, Some a))"
  by (auto simp: same_join_key_def)

text \<open>The joined pairs of one key are all pairs of the key's rows.\<close>

lemma matched_pairs_of_key:
  "filter (\<lambda>j. gt_key (fst j) = (Some t, Some a)) (matched_pairs G P)
     = List.product (filter (\<lambda>gt. gt_key gt = (Some t, Some a)) G)
                    (filter (\<lambda>pt. pt_key pt = (Some t, Some a)) P)"
proof -
  have "filter (\<lambda>j. gt_key (fst j) = (Some t, Some a)) (matched_pairs G P)
      = filter (\<lambda>j. gt_key (fst j) = (Some t, Some a) \<and> pt_key (snd j) = (Some t, Some a))
          (matched_pairs G P)"
    by (rule filter_cong) (auto simp: set_matched_pairs same_join_key_def gt_key_def pt_key_def)
  also have "\<dots> = filter (\<lambda>j. holds (gt_on_pt (fst j) (snd j)))
         (List.product (filter (\<lambda>gt. gt_key gt = (Some t, Some a)) G)
                       (filter (\<lambda>pt. pt_key pt = (Some t, Some a)) P))"
    unfolding matched_pairs_def by (rule inner_join_key)
  also have "\<dots> = List.product (filter (\<lambda>gt. gt_key gt = (Some t, Some a)) G)
                       (filter (\<lambda>pt. pt_key pt = (Some t, Some a)) P)"
    by (rule filter_True) (auto simp: holds_gt_on_pt same_join_key_def gt_key_def pt_key_def)
  finally show ?thesis .
qed

text \<open>
  When \<^verbatim>\<open>discrepancy_query\<close> keeps a joined pair: one of the three columns is present
  on both sides with different values. A column that is NULL on either side makes its
  comparison NULL, which \<^verbatim>\<open>OR\<close> and \<^verbatim>\<open>WHERE\<close> do not count as true.
\<close>

lemma discrepancy_where_holds:
  "holds (discrepancy_where (gt, pt)) =
     ((\<exists>x y. gt_amount gt = Some x \<and> pt_amount pt = Some y \<and> x \<noteq> y) \<or>
      (\<exists>x y. gt_status gt = Some x \<and> pt_status pt = Some y \<and> x \<noteq> y) \<or>
      (\<exists>x y. gt_currency_code gt = Some x \<and> pt_currency_code pt = Some y \<and> x \<noteq> y))"
  by (auto simp: holds_def discrepancy_where_def sql_or_def sql_neq_def split: option.splits)

lemma discrepant_pairs_subset: "set (discrepant_pairs G P) \<subseteq> set (matched_pairs G P)"
  by (auto simp: discrepant_pairs_def matched_pairs_def)

lemma discrepant_pairs_filter:
  "discrepant_pairs G P = filter (\<lambda>j. holds (discrepancy_where j)) (matched_pairs G P)"
  by (simp add: discrepant_pairs_def matched_pairs_def)

text \<open>With all three columns present on both sides the filter is plain inequality.\<close>

lemma discrepancy_where_present:
  "gt_amount gt \<noteq> None \<Longrightarrow> pt_amount pt \<noteq> None \<Longrightarrow>
   gt_status gt \<noteq> None \<Longrightarrow> pt_status pt \<noteq> None \<Longrightarrow>
   gt_currency_code gt \<noteq> None \<Longrightarrow> pt_currency_code pt \<noteq> None \<Longrightarrow>
   holds (discrepancy_where (gt, pt)) =
     (gt_amount gt \<noteq> pt_amount pt \<or> gt_status gt \<noteq> pt_status pt \<or>
      gt_currency_code gt \<noteq> pt_currency_code pt)"
  by (auto simp: discrepancy_where_holds)

subsection \<open>The example rows\<close>

lemma ex_keys [simp]:
  "same_join_key ex_gt_T1 ex_pt_T1" "\<not> same_join_key ex_gt_T1 ex_pt_T9"
  "\<not> same_join_key ex_gt_T2 ex_pt_T1" "\<not> same_join_key ex_gt_T2 ex_pt_T9"
  by (simp_all add: same_join_key_def ex_gt_T1_def ex_pt_T1_def ex_gt_T2_def ex_pt_T9_def)

lemma ex_key_pairs [simp]:
  "gt_key ex_gt_T1 = pt_key ex_pt_T1" "gt_key ex_gt_T2 \<noteq> pt_key ex_pt_T1"
  "gt_transaction_id ex_gt_T1 \<noteq> None" "gt_grab_account_id ex_gt_T1 \<noteq> None"
  "gt_transaction_id ex_gt_T2 \<noteq> None" "gt_grab_account_id ex_gt_T2 \<noteq> None"
  by (simp_all add: gt_key_def pt_key_def ex_gt_T1_def ex_pt_T1_def ex_gt_T2_def)

lemma ex_distinct [simp]:
  "ex_gt_T1 \<noteq> ex_gt_T2" "ex_gt_T2 \<noteq> ex_gt_T1" "ex_pt_T1 \<noteq> ex_pt_T9" "ex_pt_T9 \<noteq> ex_pt_T1"
  by (simp_all add: ex_gt_T1_def ex_pt_T1_def ex_gt_T2_def ex_pt_T9_def)

section \<open>The claims about the reconciliation engine\<close>



text \<open>
  The end-to-end scenario of the specification and its unmatched scenario, on the
  queries: one matched row that is also the one discrepant row, and the rows without
  partner in their only-partitions.
\<close>

lemma end_to_end_scenario:
  "match_query [ex_gt_T1] [ex_pt_T1] = [match_select (ex_gt_T1, ex_pt_T1)]
   \<and> discrepancy_query [ex_gt_T1] [ex_pt_T1] = [discrepancy_select (ex_gt_T1, ex_pt_T1)]
   \<and> grab_only_query [ex_gt_T1] [ex_pt_T1] = []
   \<and> partner_only_query [ex_gt_T1] [ex_pt_T1] = []"
  by (simp add: match_query_def discrepancy_query_def discrepant_pairs_def matched_pairs_def
      inner_join_def holds_gt_on_pt discrepancy_where_holds grab_only_query_filter
      partner_only_query_filter)
    (simp add: ex_gt_T1_def ex_pt_T1_def)

text \<open>
  Claim C2, at the input where the code departs from it. The source row's amount did
  not parse and is NULL, the counterpart's amount is 105, status and currency agree. The
  pair is joined, its amounts differ, and \<^verbatim>\<open>discrepancy_query\<close> returns nothing:
  \<^verbatim>\<open>gt.amount <> pt.amount\<close> is NULL, not true. The rest of the claim holds on every
  input (\<open>discrepant_pairs_subset\<close>, \<open>discrepant_pairs_filter\<close>) and the
  equivalence holds where no compared column is NULL (\<open>discrepancy_where_present\<close>).
\<close>

theorem discrepancy_misses_null_amount:
  "matched_pairs [ex_gt_T1 \<lparr> gt_amount := None \<rparr>] [ex_pt_T1]
     = [(ex_gt_T1 \<lparr> gt_amount := None \<rparr>, ex_pt_T1)]
   \<and> gt_amount (ex_gt_T1 \<lparr> gt_amount := None \<rparr>) \<noteq> pt_amount ex_pt_T1
   \<and> discrepancy_query [ex_gt_T1 \<lparr> gt_amount := None \<rparr>] [ex_pt_T1] = []"
  by (simp add: discrepancy_query_def discrepant_pairs_def matched_pairs_def inner_join_def
      holds_gt_on_pt same_join_key_def discrepancy_where_holds ex_gt_T1_def ex_pt_T1_def)

text \<open>
  Claim C3, as the code has it. For every join key \<open>(t, a)\<close> the joined pairs of that
  key are the cartesian product of the key's source rows with the key's counterpart
  rows, and \<^verbatim>\<open>match_query\<close> emits one row per joined pair. An emitted row carries
  eight columns of each side under the prefixes \<^verbatim>\<open>grab_\<close> and \<^verbatim>\<open>partner_\<close>: the
  transaction id the join uses, the account id, amount, currency code, status,
  created\_at, updated\_at and transaction\_datetime. It carries no transaction\_type,
  payment\_method or partner\_name of either side, and not the counterpart's own
  partner\_transaction\_id.
\<close>

theorem matched_cartesian_product:
  "filter (\<lambda>j. gt_key (fst j) = (Some t, Some a)) (matched_pairs G P)
     = List.product (filter (\<lambda>gt. gt_key gt = (Some t, Some a)) G)
                    (filter (\<lambda>pt. pt_key pt = (Some t, Some a)) P)
   \<and> match_query G P = map match_select (matched_pairs G P)
   \<and> match_select (gt, pt) =
       \<lparr> grab_transaction_id = gt_transaction_id gt,
         grab_account_id = gt_grab_account_id gt,
         grab_amount = gt_amount gt,
         grab_currency_code = gt_currency_code gt,
         grab_status = gt_status gt,
         grab_created_at = gt_created_at gt,
         grab_updated_at = gt_updated_at gt,
         grab_transaction_datetime = gt_transaction_datetime gt,
         partner_grab_transaction_id = pt_grab_transaction_id pt,
         partner_grab_account_id = pt_grab_account_id pt,
         partner_amount = pt_amount pt,
         partner_currency_code = pt_currency_code pt,
         partner_status = pt_status pt,
         partner_created_at = pt_created_at pt,
         partner_updated_at = pt_updated_at pt,
         partner_transaction_datetime = pt_transaction_datetime pt \<rparr>"
  by (simp add: matched_pairs_of_key match_query_def match_select_def)

text \<open>
  The claim as stated fails: two source rows that differ in transaction\_type,
  payment\_method and partner\_name give the same matched row, so the matched row does
  not carry these attributes.
\<close>

theorem matched_row_drops_fields:
  "match_query [ex_gt_T1] [ex_pt_T1]
     = match_query [ex_gt_T1 \<lparr> gt_transaction_type := Some ''debit'',
          gt_partner_name := Some ''Other'', gt_payment_method := Some ''card'' \<rparr>] [ex_pt_T1]
   \<and> gt_transaction_type ex_gt_T1 \<noteq> Some ''debit''
   \<and> gt_partner_name ex_gt_T1 \<noteq> Some ''Other''
   \<and> gt_payment_method ex_gt_T1 \<noteq> Some ''card''"
  by (simp add: match_query_def matched_pairs_def inner_join_def match_select_def
      holds_gt_on_pt same_join_key_def ex_gt_T1_def ex_pt_T1_def)

text \<open>
  Claim C8. An empty table is not a failed load: with an empty source table the
  queries run and return no matched, no discrepant and no source-only row, and every
  counterpart row as counterpart-only; symmetrically with an empty counterpart table.
\<close>

theorem empty_inputs:
  "reconcile (Some []) (Some P) =
     Some \<lparr> reconciled_transactions = [], grab_only_transactions = [],
            partner_only_transactions = P, discrepant_transactions = [] \<rparr>
   \<and> reconcile (Some G) (Some []) =
     Some \<lparr> reconciled_transactions = [], grab_only_transactions = G,
            partner_only_transactions = [], discrepant_transactions = [] \<rparr>"
  by (simp add: reconcile_def grab_only_query_filter partner_only_query_filter match_query_def
      discrepancy_query_def discrepant_pairs_def matched_pairs_def inner_join_def)

section \<open>Properties of the type conversion\<close>

lemma to_numeric_idem: "to_numeric L (to_numeric L s) = to_numeric L s"
  by (cases s) (simp_all add: to_numeric_def)

lemma astype_str_idem: "astype_str L (astype_str L s) = astype_str L s"
  by (cases s) (simp_all add: astype_str_def str_cell_def comp_def)

lemma convert_datetime_idem: "convert_datetime L (convert_datetime L s) = convert_datetime L s"
  by (cases s)
     (auto simp: convert_datetime_def is_datetime64_any_dtype_def to_datetime_utc_def dt_tz_def
        tz_convert_def split: option.splits)

lemma convert_column_idem:
  "convert_column L col (convert_column L col s) = convert_column L col s"
  by (simp add: convert_column_def to_numeric_idem astype_str_idem convert_datetime_idem)

text \<open>
  A text-typed column takes one of the string casts. The one name the \<^verbatim>\<open>'id'\<close>
  branch excludes, \<^verbatim>\<open>grab_account_id\<close>, is caught by the \<^verbatim>\<open>'account_id'\<close> branch.
\<close>

lemma text_typed_convert: "text_typed col \<Longrightarrow> convert_column L col s = astype_str L s"
  by (auto simp: text_typed_def convert_column_def sublist_Cons_right)

lemma no_nulls_astype_str: "no_nulls (astype_str L s)"
  by (cases s) (simp_all add: no_nulls_def astype_str_def list_all_iff)

lemma text_typed_examples:
  "text_typed ''grab_status''" "\<not> text_typed ''grab_amount''" "\<not> text_typed ''created_at''"
  by (simp_all add: text_typed_def sublist_Cons_right)

text \<open>
  The branch each column name of the four results takes: the amounts are made numeric,
  the timestamps are made UTC datetimes, every other column is cast to strings.
\<close>

lemma result_columns_numeric:
  "convert_column L ''amount'' s = to_numeric L s"
  "convert_column L ''grab_amount'' s = to_numeric L s"
  "convert_column L ''partner_amount'' s = to_numeric L s"
  by (simp_all add: convert_column_def sublist_Cons_right)

lemma result_columns_datetime:
  "convert_column L ''transaction_datetime'' s = convert_datetime L s"
  "convert_column L ''created_at'' s = convert_datetime L s"
  "convert_column L ''updated_at'' s = convert_datetime L s"
  "convert_column L ''grab_transaction_datetime'' s = convert_datetime L s"
  "convert_column L ''grab_created_at'' s = convert_datetime L s"
  "convert_column L ''grab_updated_at'' s = convert_datetime L s"
  "convert_column L ''partner_transaction_datetime'' s = convert_datetime L s"
  "convert_column L ''partner_created_at'' s = convert_datetime L s"
  "convert_column L ''partner_updated_at'' s = convert_datetime L s"
  by (simp_all add: convert_column_def sublist_Cons_right)

lemma result_columns_text:
  "text_typed ''transaction_id''" "text_typed ''partner_transaction_id''"
  "text_typed ''grab_transaction_id''" "text_typed ''partner_grab_transaction_id''"
  "text_typed ''grab_account_id''" "text_typed ''partner_grab_account_id''"
  "text_typed ''transaction_type''" "text_typed ''payment_method''" "text_typed ''partner_name''"
  "text_typed ''currency_code''" "text_typed ''grab_currency_code''"
  "text_typed ''partner_currency_code''"
  "text_typed ''status''" "text_typed ''grab_status''" "text_typed ''partner_status''"
  by (simp_all add: text_typed_def sublist_Cons_right)

section \<open>The claims about the result assembler\<close>

text \<open>
  Claim C7. The type conversion is idempotent: for every data frame, and so for each
  of the four results, converting the converted frame again returns it unchanged.
\<close>

theorem type_conversion_idempotent:
  "convert_dataframe_column_types L (convert_dataframe_column_types L df)
     = convert_dataframe_column_types L df"
  by (induction df) (auto simp: convert_dataframe_column_types_def convert_column_idem)

text \<open>
  Claim C10, as the code has it. After the conversion a text-typed column (a status,
  currency code, identifier, name, type or payment method column) holds no missing
  value: every cell is a string. A missing value becomes the string that \<^verbatim>\<open>str\<close>
  gives for it, which depends on how it was missing: the \<^verbatim>\<open>None\<close> that stands for
  NULL in a text column of a query result becomes \<^verbatim>\<open>'None'\<close>, the NaN of a numeric
  column becomes \<^verbatim>\<open>'nan'\<close>. Two rows that were both missing in such a column hold
  the same string afterwards.
\<close>

theorem text_columns_without_nulls:
  "text_typed col \<Longrightarrow>
     no_nulls (convert_column L col s)
     \<and> convert_column L col (text_column xs)
         = Object (map (\<lambda>x. PyStr (case x of None \<Rightarrow> ''None'' | Some v \<Rightarrow> v)) xs)
     \<and> convert_column L col (Numeric ys)
         = Object (map (\<lambda>y. PyStr (case y of None \<Rightarrow> ''nan'' | Some v \<Rightarrow> str_of_num L v)) ys)"
proof -
  assume tt: "text_typed col"
  have "no_nulls (convert_column L col s)"
    by (simp only: text_typed_convert [OF tt] no_nulls_astype_str)
  moreover have "convert_column L col (text_column xs)
      = Object (map (\<lambda>x. PyStr (case x of None \<Rightarrow> ''None'' | Some v \<Rightarrow> v)) xs)"
    by (auto simp: text_typed_convert [OF tt] astype_str_def text_column_def str_cell_def
        split: option.splits)
  moreover have "convert_column L col (Numeric ys)
      = Object (map (\<lambda>y. PyStr (case y of None \<Rightarrow> ''nan'' | Some v \<Rightarrow> str_of_num L v)) ys)"
    by (simp add: text_typed_convert [OF tt] astype_str_def)
  ultimately show ?thesis by simp
qed

theorem text_columns_without_nulls_witness:
  "text_typed ''grab_status''
   \<and> no_nulls (convert_column ex_pandas ''grab_status'' (Object [PyNone, PyNaN, PyStr ''success'']))
   \<and> convert_column ex_pandas ''grab_status'' (text_column [None, Some ''success'', None])
       = Object [PyStr ''None'', PyStr ''success'', PyStr ''None'']
   \<and> convert_column ex_pandas ''grab_status'' (Numeric [None, None])
       = Object [PyStr ''nan'', PyStr ''nan'']"
  using text_columns_without_nulls [of "''grab_status''" ex_pandas
      "Object [PyNone, PyNaN, PyStr ''success'']" "[None, Some ''success'', None]" "[None, None]"]
  by (simp add: text_typed_examples)

text \<open>
  The claim as stated fails on the literal: a matched pair whose source status is NULL
  gives a \<^verbatim>\<open>grab_status\<close> cell \<^verbatim>\<open>'None'\<close>, not \<^verbatim>\<open>'nan'\<close>.
\<close>

theorem missing_status_is_None_string:
  "map_of (convert_dataframe_column_types ex_pandas
      (reconciled_frame (match_query [ex_gt_T1 \<lparr> gt_status := None \<rparr>] [ex_pt_T1])))
      ''grab_status'' = Some (Object [PyStr ''None''])
   \<and> PyStr ''None'' \<noteq> PyStr ''nan''"
  by (simp add: convert_dataframe_column_types_def reconciled_frame_def match_query_def
      matched_pairs_def inner_join_def holds_gt_on_pt same_join_key_def ex_gt_T1_def ex_pt_T1_def
      match_select_def text_column_def text_typed_convert text_typed_examples astype_str_def
      str_cell_def)

section \<open>Properties of the sinks\<close>

text \<open>The CSV file and the tables of the cleaning step hold exactly the rows stored last.\<close>

lemma csv_export_overwrites:
  "csv_files (export_result S table_name df) table_name = Some df"
  by (simp add: export_result_def save_dataframe_to_csv_def Let_def)

lemma staging_overwrites:
  "load_dataframe_to_staging db df table_name table_name = Some df"
  by (simp add: load_dataframe_to_staging_def)

text \<open>The reconciled table holds what it held before, followed by the rows stored.\<close>

lemma postgres_export_appends:
  "postgres (export_result S table_name df) table_name
     = Some ((case postgres S table_name of None \<Rightarrow> [] | Some rows \<Rightarrow> rows) @ df)"
  by (simp add: export_result_def create_reconciled_table_if_not_exists_def
      load_dataframe_to_postgres_def Let_def split: option.splits)

section \<open>The claim about the sinks\<close>

text \<open>
  Claim C9, at the input where the code departs from it. The matched result of the
  end-to-end scenario is exported twice under the same name, as a second run for the
  same day does. The CSV file then holds the row once, the database table holds it
  twice: the table store appends. The flat-file export and the tables of the cleaning
  step do overwrite (\<open>csv_export_overwrites\<close>, \<open>staging_overwrites\<close>).
\<close>

theorem reconciled_table_appends:
  "postgres (export_result
       (export_result \<lparr> postgres = Map.empty, csv_files = Map.empty \<rparr>
          ''reconciled_transactions_20240517'' (match_query [ex_gt_T1] [ex_pt_T1]))
       ''reconciled_transactions_20240517'' (match_query [ex_gt_T1] [ex_pt_T1]))
     ''reconciled_transactions_20240517''
     = Some [match_select (ex_gt_T1, ex_pt_T1), match_select (ex_gt_T1, ex_pt_T1)]
   \<and> csv_files (export_result
       (export_result \<lparr> postgres = Map.empty, csv_files = Map.empty \<rparr>
          ''reconciled_transactions_20240517'' (match_query [ex_gt_T1] [ex_pt_T1]))
       ''reconciled_transactions_20240517'' (match_query [ex_gt_T1] [ex_pt_T1]))
     ''reconciled_transactions_20240517''
     = Some [match_select (ex_gt_T1, ex_pt_T1)]"
  by (simp add: postgres_export_appends csv_export_overwrites match_query_def matched_pairs_def
      inner_join_def holds_gt_on_pt)

section \<open>Properties of the cleaning step\<close>

subsection \<open>Currency codes\<close>

lemma upper_char_not_lower: "\<not> is_lower (upper_char c)"
  by (auto simp: upper_char_def is_lower_def)

lemma clean_currency_code_filter:
  "clean_currency_code s = filter is_upper (upper (strip s))"
  unfolding clean_currency_code_def remove_non_letters_def upper_def
  by (rule filter_cong) (auto simp: upper_char_not_lower)


text \<open>
  The characters \<open>is_upper\<close> accepts are the 26 letters from A to Z: the codes 65 to
  90, with \<^verbatim>\<open>@\<close> just below and \<^verbatim>\<open>[\<close> just above.
\<close>

lemma is_upper_letters:
  "list_all is_upper ''ABCDEFGHIJKLMNOPQRSTUVWXYZ''"
  "map of_char ''@AZ['' = [64, 65, 90, 91 :: nat]"
  by code_simp+

subsection \<open>The order of the formats\<close>





lemma parse_other_formats:
  "parse_datetime (PyStr ''05/17/2024 10:00:00 AM'') = Some (utc_instant 2024 5 17 10 0 0)"
  "parse_datetime (PyStr ''20240517T100000Z'') = Some (utc_instant 2024 5 17 10 0 0)"
  "parse_datetime (PyStr ''2024-05-17'') = Some (utc_instant 2024 5 17 0 0 0)"
  "parse_datetime (PyStr ''2024-05-17T18:00:00+08:00'') = Some (utc_instant 2024 5 17 10 0 0)"
  "parse_datetime (PyStr ''17 May 2024'') = None"
  by code_simp+

subsection \<open>The columns\<close>











lemma ex_raw_cleaned:
  "clean_row ex_pandas ex_raw =
     \<lparr> ids = ''T1'', transaction_datetime = Some 1715940000000000000,
       transaction_type = PyStr ''credit'', amount = Some 100,
       currency_code = PyStr ''PHP'', status = PyStr ''success'',
       partner_name = PyStr ''Acme'', payment_method = PyStr ''e-wallet'',
       created_at = Some 1715940000000000000, updated_at = None \<rparr>"
  by code_simp

section \<open>The claims about the cleaning step\<close>

text \<open>
  Claim C6. The currency code is trimmed, upper-cased and stripped of every character
  that is not one of the letters A to Z; \<^verbatim>\<open>" php "\<close> and \<^verbatim>\<open>"P-H-P"\<close> both become
  \<^verbatim>\<open>"PHP"\<close>. (The expression in the code deletes what is outside a-z and A-Z; after
  the upper-casing no a-z is left.)
\<close>

theorem currency_code_normalization:
  "clean_currency_code s = filter is_upper (upper (strip s))
   \<and> clean_currency_code '' php '' = ''PHP''
   \<and> clean_currency_code ''P-H-P'' = ''PHP''"
proof -
  have "clean_currency_code '' php '' = ''PHP''" by code_simp
  moreover have "clean_currency_code ''P-H-P'' = ''PHP''" by code_simp
  ultimately show ?thesis by (simp only: clean_currency_code_filter simp_thms)
qed





end
